theory Spec2Isabelle
  imports Complex_Main
begin

section \<open>Python values, exceptions and the numpy store\<close>

text \<open>
  The notebooks are Python. An exception that leaves a function is a value \<open>Inl e\<close> of the
  result type \<open>exn + 'a\<close>. \<open>JSONDecodeError\<close> is a subclass of \<open>ValueError\<close> in Python,
  which \<open>is_ValueError\<close> records (it decides what \<open>except ValueError\<close> catches).
\<close>

datatype exn =
    JSONDecodeError
  | ValueError string
  | AttributeError
  | KeyError
  | IndexError
  | AssertionError
  | OtherException string

fun is_ValueError :: "exn \<Rightarrow> bool" where
  "is_ValueError JSONDecodeError = True"
| "is_ValueError (ValueError m) = True"
| "is_ValueError e = False"

text \<open>
  float32 vectors are idealised as lists of reals. A numpy array is a matrix given by its
  rows; the store \<open>heap\<close> holds every array that was allocated, an address being a position
  in it. \<open>np.array(rows).astype('float32')\<close> allocates a new array (a copy);
  \<open>a.reshape(1, -1)\<close> of a one-dimensional array is a view on the same buffer, so a
  one-dimensional array is stored as a matrix of one row and the view has its address.
\<close>

type_synonym vec = "real list"
type_synonym ndarray = "vec list"
type_synonym addr = nat

definition alloc :: "ndarray \<Rightarrow> ndarray list \<Rightarrow> addr \<times> ndarray list" where
  "alloc a h = (length h, h @ [a])"

text \<open>\<open>np.array(rows)\<close> of rows of different lengths has no float32 matrix: ValueError.\<close>

definition np_array :: "vec list \<Rightarrow> ndarray list \<Rightarrow> exn + addr \<times> ndarray list" where
  "np_array rows h =
     (if \<exists>r \<in> set rows. length r \<noteq> length (hd rows) then Inl (ValueError ''inhomogeneous shape'')
      else Inr (alloc rows h))"

text \<open>
  \<open>faiss.normalize_L2(x)\<close> rescales every row of the array \<open>x\<close> in place to norm 1 and
  leaves a row of norm 0 as it is. It returns nothing: only the array at that address changes.
\<close>

definition sq_norm :: "vec \<Rightarrow> real" where
  "sq_norm v = sum_list (map (\<lambda>x. x * x) v)"

definition l2_norm :: "vec \<Rightarrow> real" where
  "l2_norm v = sqrt (sq_norm v)"

definition normalize_row :: "vec \<Rightarrow> vec" where
  "normalize_row v = (if 0 < sq_norm v then map (\<lambda>x. x / sqrt (sq_norm v)) v else v)"

definition normalize_L2 :: "addr \<Rightarrow> ndarray list \<Rightarrow> ndarray list" where
  "normalize_L2 a h = (if a < length h then h[a := map normalize_row (h ! a)] else h)"

section \<open>The vector index (faiss.IndexFlatL2)\<close>

text \<open>
  The index is library code, modelled from its documented behaviour. \<open>add\<close> copies the rows
  of the array it is given behind the stored ones. \<open>search(x, k)\<close> asserts the dimension and
  \<open>k > 0\<close>, then allocates the arrays of its results, ranks the stored vectors by squared
  L2 distance to the query (equal distances in insertion order) and returns exactly \<open>k\<close>
  distances and \<open>k\<close> labels: where fewer than \<open>k\<close> vectors are stored, the missing labels
  are \<open>-1\<close> and the missing distances the largest float32.

  The distances of one query are a float32 array of \<open>4 * k\<close> bytes; numpy refuses an array of
  more than \<open>NPY_MAX_BYTES\<close> bytes with a ValueError, which is how a search with a \<open>k\<close> that
  large ends. Below that bound the allocation is taken to succeed: the memory of the machine
  is not modelled, so a search that the model lets through may still die of a MemoryError,
  and no statement of this theory says that a search with an arbitrary \<open>k \<ge> 1\<close> succeeds.
\<close>

record faiss_index =
  dim :: nat
  xb :: "vec list"

definition IndexFlatL2 :: "nat \<Rightarrow> faiss_index" where
  "IndexFlatL2 d = \<lparr>dim = d, xb = []\<rparr>"

definition index_add :: "faiss_index \<Rightarrow> ndarray \<Rightarrow> exn + faiss_index" where
  "index_add ix x =
     (if \<forall>r \<in> set x. length r = dim ix then Inr (ix\<lparr>xb := xb ix @ x\<rparr>) else Inl AssertionError)"

definition l2_sqr :: "vec \<Rightarrow> vec \<Rightarrow> real" where
  "l2_sqr x y = sum_list (map (\<lambda>(a, b). (a - b) * (a - b)) (zip x y))"

definition FLT_MAX :: real where
  "FLT_MAX = 340282346638528859811704183484516925440"

definition NPY_MAX_BYTES :: int where
  "NPY_MAX_BYTES = 9223372036854775807"

definition ranked :: "faiss_index \<Rightarrow> vec \<Rightarrow> (real \<times> int) list" where
  "ranked ix q = sort_key fst (map (\<lambda>i. (l2_sqr q (xb ix ! i), int i)) [0..<length (xb ix)])"

definition index_search :: "faiss_index \<Rightarrow> vec \<Rightarrow> int \<Rightarrow> exn + real list \<times> int list" where
  "index_search ix q k =
     (if length q \<noteq> dim ix \<or> k \<le> 0 then Inl AssertionError
      else if NPY_MAX_BYTES < 4 * k then Inl (ValueError ''array is too big'')
      else
        let top = take (nat k) (ranked ix q);
            pad = nat k - length top
        in Inr (map fst top @ replicate pad FLT_MAX, map snd top @ replicate pad (- 1)))"

text \<open>Python's \<open>xs[i]\<close>: a negative index counts from the end, out of range is IndexError.\<close>

definition py_index :: "'a list \<Rightarrow> int \<Rightarrow> exn + 'a" where
  "py_index xs idx =
     (if 0 \<le> idx \<and> idx < int (length xs) then Inr (xs ! nat idx)
      else if idx < 0 \<and> - int (length xs) \<le> idx then Inr (xs ! nat (int (length xs) + idx))
      else Inl IndexError)"

text \<open>A list comprehension whose element expression may raise: the first exception ends it.\<close>

fun comprehend :: "('a \<Rightarrow> exn + 'b) \<Rightarrow> 'a list \<Rightarrow> exn + 'b list" where
  "comprehend f [] = Inr []"
| "comprehend f (x # xs) =
     (case f x of
        Inl e \<Rightarrow> Inl e
      | Inr y \<Rightarrow> (case comprehend f xs of Inl e \<Rightarrow> Inl e | Inr ys \<Rightarrow> Inr (y # ys)))"

section \<open>Semantic skill selection (sementic\_skill\_selection.ipynb)\<close>

text \<open>
  The notebook's globals. \<open>embed_log\<close> lists the texts sent to the Embedder
  (\<open>embeddings.embed_query\<close>), in order. The Embedder itself is a parameter \<open>embedder\<close>,
  a function that answers every text with a vector: a run in which the provider fails and
  the Embedder raises is not modelled.
\<close>

record sem_world =
  heap :: "ndarray list"
  embed_log :: "string list"
  tool_embeddings :: "vec list"
  tool_names :: "string list"
  index :: faiss_index
  index_to_tool :: "int \<Rightarrow> string option"

definition tool_descriptions :: "(string \<times> string) list" where
  "tool_descriptions =
    [(''query_wolfram_alpha'',
        ''Use Wolfram Alpha to compute mathematical expressions or retrieve information.''),
     (''trigger_zapier_webhook'',
        ''Trigger a Zapier webhook to execute predefined automated workflows.''),
     (''send_slack_message'',
        ''Send messages to specific Slack channels to communicate with team members.'')]"

definition notebook_index_to_tool :: "int \<Rightarrow> string option" where
  "notebook_index_to_tool =
     [0 \<mapsto> ''query_wolfram_alpha'', 1 \<mapsto> ''trigger_zapier_webhook'', 2 \<mapsto> ''send_slack_message'']"

text \<open>
  The cells that build the index, in order: embed every description; take the dimension
  from the first embedding; \<open>faiss.normalize_L2(np.array(tool_embeddings).astype('float32'))\<close>
  on an array made for that call; then \<open>tool_embeddings_np = np.array(tool_embeddings)...\<close>,
  a second array made from the same Python list, which is the one added to the index.
\<close>

definition build_index ::
  "(string \<Rightarrow> vec) \<Rightarrow> (string \<times> string) list \<Rightarrow> (int \<Rightarrow> string option) \<Rightarrow> exn + sem_world" where
  "build_index embedder descs i2t =
     (let embs = map (\<lambda>(tool_name, description). embedder description) descs;
          names = map fst descs;
          texts = map snd descs
      in if embs = [] then Inl IndexError
         else
           let dimension = length (hd embs);
               ix = IndexFlatL2 dimension
           in case np_array embs [] of
                Inl e \<Rightarrow> Inl e
              | Inr (tmp, h1) \<Rightarrow>
                  let h2 = normalize_L2 tmp h1
                  in case np_array embs h2 of
                       Inl e \<Rightarrow> Inl e
                     | Inr (tool_embeddings_np, h3) \<Rightarrow>
                         (case index_add ix (h3 ! tool_embeddings_np) of
                            Inl e \<Rightarrow> Inl e
                          | Inr ix' \<Rightarrow>
                              Inr \<lparr>heap = h3, embed_log = texts, tool_embeddings = embs,
                                   tool_names = names, index = ix', index_to_tool = i2t\<rparr>))"

text \<open>
  \<open>select_tool(query, top_k)\<close>: the query is embedded into a new array, normalised in place
  through the view \<open>reshape(1, -1)\<close>, searched, and the labels found in \<open>index_to_tool\<close>
  are mapped to names (\<open>if idx in index_to_tool\<close>).
\<close>

definition select_tool ::
  "(string \<Rightarrow> vec) \<Rightarrow> sem_world \<Rightarrow> string \<Rightarrow> int \<Rightarrow> (exn + string list) \<times> sem_world" where
  "select_tool embedder w query top_k =
     (let (query_embedding, h1) = alloc [embedder query] (heap w);
          w1 = w\<lparr>heap := h1, embed_log := embed_log w @ [query]\<rparr>;
          w2 = w1\<lparr>heap := normalize_L2 query_embedding (heap w1)\<rparr>
      in case index_search (index w2) (hd (heap w2 ! query_embedding)) top_k of
           Inl e \<Rightarrow> (Inl e, w2)
         | Inr (D, I) \<Rightarrow> (Inr (List.map_filter (index_to_tool w2) I), w2))"

section \<open>Hierarchical skill selection (hierarchical\_selection.ipynb)\<close>

text \<open>
  A tool is known here by its \<open>__name__\<close> and its \<open>__doc__\<close> (\<open>None\<close> without a
  docstring). \<open>tool_groups\<close> is the dictionary of groups in insertion order. The
  Embedder is again the parameter \<open>embedder\<close>: it stands for \<open>embeddings.embed_text\<close>
  and, text by text, for \<open>embeddings.embed_texts\<close>, and \<open>h_embed_log\<close> lists the texts
  sent to it.
\<close>

record tool =
  func_name :: string
  func_doc :: "string option"

record group_info =
  description :: string
  tools :: "tool list"

record tool_info =
  tindex :: faiss_index
  "functions" :: "tool list"
  embeddings :: addr

record hier_world =
  h_heap :: "ndarray list"
  h_embed_log :: "string list"
  tool_groups :: "(string \<times> group_info) list"
  group_names :: "string list"
  group_embeddings :: "vec list"
  group_embeddings_np :: addr
  group_index :: faiss_index
  tool_indices :: "string \<Rightarrow> tool_info option"

text \<open>
  \<open>tool_func.__doc__.strip().split('\n')[0]\<close>: the first line of the stripped docstring
  (ASCII white space; \<open>None.strip()\<close> is an AttributeError).
\<close>

definition is_space :: "char \<Rightarrow> bool" where
  "is_space c =
     (c \<in> set [CHR '' '', CHR 0x09, CHR 0x0A, CHR 0x0B, CHR 0x0C, CHR 0x0D,
                CHR 0x1C, CHR 0x1D, CHR 0x1E, CHR 0x1F])"

definition py_strip :: "string \<Rightarrow> string" where
  "py_strip s = rev (dropWhile is_space (rev (dropWhile is_space s)))"

definition first_line :: "string \<Rightarrow> string" where
  "first_line s = takeWhile (\<lambda>c. c \<noteq> CHR 0x0A) (py_strip s)"

definition describe_tool :: "tool \<Rightarrow> exn + string" where
  "describe_tool tool_func =
     (case func_doc tool_func of None \<Rightarrow> Inl AttributeError | Some d \<Rightarrow> Inr (first_line d))"

text \<open>
  One round of the loop that fills \<open>tool_indices\<close>: a group with no tool description is
  skipped (\<open>if tool_descriptions:\<close>) and gets no entry. The array is normalised in place
  and is the one added to the group's index.
\<close>

definition index_group ::
  "(string \<Rightarrow> vec) \<Rightarrow> string \<times> group_info \<Rightarrow>
   ndarray list \<times> string list \<times> (string \<Rightarrow> tool_info option) \<Rightarrow>
   exn + ndarray list \<times> string list \<times> (string \<Rightarrow> tool_info option)" where
  "index_group embedder g st =
     (case (g, st) of ((group_name, info), (h, lg, ti)) \<Rightarrow>
        (case comprehend describe_tool (tools info) of
           Inl e \<Rightarrow> Inl e
         | Inr descriptions \<Rightarrow>
             if descriptions = [] then Inr (h, lg, ti)
             else
               (case np_array (map embedder descriptions) h of
                  Inl e \<Rightarrow> Inl e
                | Inr (tool_embeddings_np, h1) \<Rightarrow>
                    let h2 = normalize_L2 tool_embeddings_np h1;
                        tool_index = IndexFlatL2 (length (hd (h2 ! tool_embeddings_np)))
                    in case index_add tool_index (h2 ! tool_embeddings_np) of
                         Inl e \<Rightarrow> Inl e
                       | Inr tool_index' \<Rightarrow>
                           Inr (h2, lg @ descriptions,
                                ti(group_name \<mapsto>
                                   \<lparr>tindex = tool_index', functions = tools info,
                                    embeddings = tool_embeddings_np\<rparr>)))))"

fun index_groups ::
  "(string \<Rightarrow> vec) \<Rightarrow> (string \<times> group_info) list \<Rightarrow>
   ndarray list \<times> string list \<times> (string \<Rightarrow> tool_info option) \<Rightarrow>
   exn + ndarray list \<times> string list \<times> (string \<Rightarrow> tool_info option)" where
  "index_groups embedder [] st = Inr st"
| "index_groups embedder (g # gs) st =
     (case index_group embedder g st of
        Inl e \<Rightarrow> Inl e
      | Inr st' \<Rightarrow> index_groups embedder gs st')"

text \<open>
  The three building cells: embed the group descriptions, build \<open>group_index\<close> from the
  array normalised in place, then fill \<open>tool_indices\<close>. With no group at all,
  \<open>normalize_L2\<close> is given an array without a second axis and fails (IndexError).
\<close>

definition build_hierarchy :: "(string \<Rightarrow> vec) \<Rightarrow> (string \<times> group_info) list \<Rightarrow> exn + hier_world" where
  "build_hierarchy embedder groups =
     (let names = map fst groups;
          texts = map (\<lambda>(group_name, info). description info) groups;
          embs = map embedder texts
      in if embs = [] then Inl IndexError
         else
           (case np_array embs [] of
              Inl e \<Rightarrow> Inl e
            | Inr (a, h1) \<Rightarrow>
                let h2 = normalize_L2 a h1;
                    gix = IndexFlatL2 (length (hd (h2 ! a)))
                in case index_add gix (h2 ! a) of
                     Inl e \<Rightarrow> Inl e
                   | Inr gix' \<Rightarrow>
                       (case index_groups embedder groups (h2, texts, Map.empty) of
                          Inl e \<Rightarrow> Inl e
                        | Inr (h3, lg, ti) \<Rightarrow>
                            Inr \<lparr>h_heap = h3, h_embed_log = lg, tool_groups = groups,
                                 group_names = names, group_embeddings = embs,
                                 group_embeddings_np = a, group_index = gix',
                                 tool_indices = ti\<rparr>)))"

text \<open>
  \<open>select_group(query, top_k)\<close> maps every label to \<open>group_names[idx]\<close>, unfiltered.
\<close>

definition select_group ::
  "(string \<Rightarrow> vec) \<Rightarrow> hier_world \<Rightarrow> string \<Rightarrow> int \<Rightarrow> (exn + string list) \<times> hier_world" where
  "select_group embedder w query top_k =
     (let (query_embedding, h1) = alloc [embedder query] (h_heap w);
          w1 = w\<lparr>h_heap := normalize_L2 query_embedding h1,
                 h_embed_log := h_embed_log w @ [query]\<rparr>
      in case index_search (group_index w1) (hd (h_heap w1 ! query_embedding)) top_k of
           Inl e \<Rightarrow> (Inl e, w1)
         | Inr (D, I) \<Rightarrow> (comprehend (py_index (group_names w1)) I, w1))"

text \<open>
  The notebook's \<open>select_tool(query, group_name, top_k)\<close>; the name \<open>select_tool\<close> is taken
  by the semantic notebook's function above. \<open>tool_indices[group_name]\<close> is a KeyError for
  a group without entry; the labels kept are those with \<open>idx < len(functions)\<close>.
\<close>

definition hier_select_tool ::
  "(string \<Rightarrow> vec) \<Rightarrow> hier_world \<Rightarrow> string \<Rightarrow> string \<Rightarrow> int \<Rightarrow> (exn + tool list) \<times> hier_world" where
  "hier_select_tool embedder w query group_name top_k =
     (case tool_indices w group_name of
        None \<Rightarrow> (Inl KeyError, w)
      | Some info \<Rightarrow>
          let (query_embedding, h1) = alloc [embedder query] (h_heap w);
              w1 = w\<lparr>h_heap := normalize_L2 query_embedding h1,
                     h_embed_log := h_embed_log w @ [query]\<rparr>
          in case index_search (tindex info) (hd (h_heap w1 ! query_embedding)) top_k of
               Inl e \<Rightarrow> (Inl e, w1)
             | Inr (D, I) \<Rightarrow>
                 (comprehend (py_index (functions info))
                    (filter (\<lambda>idx. idx < int (length (functions info))) I), w1))"

text \<open>
  The first two steps of the last cell: the top group, then the top tool within it
  (\<open>if not selected_groups: ... return\<close> gives no tool).
\<close>

definition hierarchical_selection ::
  "(string \<Rightarrow> vec) \<Rightarrow> hier_world \<Rightarrow> string \<Rightarrow> (exn + tool list) \<times> hier_world" where
  "hierarchical_selection embedder w user_query =
     (case select_group embedder w user_query 1 of
        (Inl e, w1) \<Rightarrow> (Inl e, w1)
      | (Inr selected_groups, w1) \<Rightarrow>
          if selected_groups = [] then (Inr [], w1)
          else hier_select_tool embedder w1 user_query (hd selected_groups) 1)"

section \<open>Argument binding and the dispatch cell (sementic\_skill\_selection.ipynb)\<close>

text \<open>
  What \<open>json.loads\<close> returns, and Python's \<open>None\<close> as \<open>JNull\<close>. An object is the
  dictionary that was built, as an association list.
\<close>

datatype json =
    JNull
  | JBool bool
  | JNum real
  | JStr string
  | JArr "json list"
  | JObj "(string \<times> json) list"

text \<open>\<open>response_data.get(key, default)\<close>; only a dictionary has \<open>get\<close>.\<close>

definition dict_get :: "json \<Rightarrow> string \<Rightarrow> json \<Rightarrow> exn + json" where
  "dict_get response_data key dflt =
     (case response_data of
        JObj kvs \<Rightarrow> Inr (case map_of kvs key of None \<Rightarrow> dflt | Some v \<Rightarrow> v)
      | _ \<Rightarrow> Inl AttributeError)"

text \<open>
  \<open>determine_parameters(query, tool_name)\<close>. The language model and \<open>json.loads\<close> are
  outside the repository: \<open>llm_json query tool_name\<close> is what
  \<open>json.loads(llm(messages).content)\<close> gives for the prompt made of this query and tool
  name, a JSON value or the exception raised (JSONDecodeError for a reply that is not JSON).
  Nothing in the function catches it.
\<close>

definition determine_parameters ::
  "(string \<Rightarrow> string \<Rightarrow> exn + json) \<Rightarrow> string \<Rightarrow> string \<Rightarrow> exn + (string \<times> json) list" where
  "determine_parameters llm_json query tool_name =
     (case llm_json query tool_name of
        Inl e \<Rightarrow> Inl e
      | Inr response_data \<Rightarrow>
          if tool_name = ''query_wolfram_alpha'' then
            (case dict_get response_data ''expression'' JNull of
               Inl e \<Rightarrow> Inl e
             | Inr expression \<Rightarrow> Inr [(''expression'', expression)])
          else if tool_name = ''trigger_zapier_webhook'' then
            (case dict_get response_data ''zap_id'' (JStr ''123456'') of
               Inl e \<Rightarrow> Inl e
             | Inr zap_id \<Rightarrow>
                 (case dict_get response_data ''payload'' (JObj [(''data'', JStr query)]) of
                    Inl e \<Rightarrow> Inl e
                  | Inr payload \<Rightarrow> Inr [(''zap_id'', zap_id), (''payload'', payload)]))
          else if tool_name = ''send_slack_message'' then
            (case dict_get response_data ''channel'' (JStr ''#general'') of
               Inl e \<Rightarrow> Inl e
             | Inr channel \<Rightarrow>
                 (case dict_get response_data ''message'' (JStr query) of
                    Inl e \<Rightarrow> Inl e
                  | Inr message \<Rightarrow> Inr [(''channel'', channel), (''message'', message)]))
          else Inr [])"

text \<open>
  The parameters each tool declares: the signatures of the three \<open>@tool\<close> functions, as
  the hierarchical and the generative notebook define them.
\<close>

definition parameter_schema :: "string \<Rightarrow> string list" where
  "parameter_schema tool_name =
     (if tool_name = ''query_wolfram_alpha'' then [''expression'']
      else if tool_name = ''trigger_zapier_webhook'' then [''zap_id'', ''payload'']
      else if tool_name = ''send_slack_message'' then [''channel'', ''message'']
      else [])"

text \<open>
  The cell that runs a query: the top tool, its parameters, its invocation.
  \<open>determine_parameters\<close> is called before the \<open>try\<close>; inside it are the lookup
  \<open>globals()[tool_name]\<close> and \<open>invoke\<close>, and only a ValueError is caught. What the cell
  prints is its result.
\<close>

datatype printed =
    Tool_Result string string
  | Error_Invoking string exn
  | No_Tool_Selected

definition dispatch ::
  "(string \<Rightarrow> vec) \<Rightarrow> (string \<Rightarrow> string \<Rightarrow> exn + json) \<Rightarrow>
   (string \<Rightarrow> ((string \<times> json) list \<Rightarrow> exn + string) option) \<Rightarrow>
   sem_world \<Rightarrow> string \<Rightarrow> (exn + printed) \<times> sem_world" where
  "dispatch embedder llm_json globals w user_query =
     (case select_tool embedder w user_query 1 of
        (Inl e, w1) \<Rightarrow> (Inl e, w1)
      | (Inr selected_tools, w1) \<Rightarrow>
          (case selected_tools of
             [] \<Rightarrow> (Inr No_Tool_Selected, w1)
           | tool_name # others \<Rightarrow>
               if tool_name = [] then (Inr No_Tool_Selected, w1)
               else
                 (case determine_parameters llm_json user_query tool_name of
                    Inl e \<Rightarrow> (Inl e, w1)
                  | Inr args \<Rightarrow>
                      (case globals tool_name of
                         None \<Rightarrow> (Inl KeyError, w1)
                       | Some invoke \<Rightarrow>
                           (case invoke args of
                              Inr tool_result \<Rightarrow> (Inr (Tool_Result tool_name tool_result), w1)
                            | Inl e \<Rightarrow>
                                if is_ValueError e then (Inr (Error_Invoking tool_name e), w1)
                                else (Inl e, w1))))))"

section \<open>The tool-call loops of the function-calling notebooks\<close>

text \<open>
  A tool call of the model's message, and the messages of the conversation. A run of a
  loop cell records the messages, the calls that were invoked, the exception that ended
  the cell and the final response, if the cell got that far. Printing is left out.
\<close>

record tool_call =
  call_name :: string
  call_args :: "(string \<times> json) list"
  call_id :: string

datatype message =
    HumanMessage string
  | AIMessage string "tool_call list"
  | ToolMessage string string

record 'i run =
  messages :: "message list"
  invoked :: "'i list"
  raised :: "exn option"
  final_response :: "string option"

text \<open>
  The stock-price notebook: every tool call goes to \<open>get_stock_price.invoke\<close>, with no
  \<open>try\<close> around it; the final response is asked for after the loop, in the same cell.
\<close>

fun stock_loop ::
  "(tool_call \<Rightarrow> exn + message) \<Rightarrow> tool_call list \<Rightarrow> tool_call run \<Rightarrow> tool_call run" where
  "stock_loop get_stock_price [] r = r"
| "stock_loop get_stock_price (tc # rest) r =
     (case get_stock_price tc of
        Inl e \<Rightarrow> r\<lparr>invoked := invoked r @ [tc], raised := Some e\<rparr>
      | Inr tool_msg \<Rightarrow>
          stock_loop get_stock_price rest
            (r\<lparr>messages := messages r @ [tool_msg], invoked := invoked r @ [tc]\<rparr>))"

definition stock_cell ::
  "(message list \<Rightarrow> exn + string) \<Rightarrow> (tool_call \<Rightarrow> exn + message) \<Rightarrow>
   message list \<Rightarrow> tool_call list \<Rightarrow> tool_call run" where
  "stock_cell llm_with_tools get_stock_price msgs tool_calls =
     (let r = stock_loop get_stock_price tool_calls
                \<lparr>messages = msgs, invoked = [], raised = None, final_response = None\<rparr>
      in case raised r of
           Some e \<Rightarrow> r
         | None \<Rightarrow>
             (case llm_with_tools (messages r) of
                Inl e \<Rightarrow> r\<lparr>raised := Some e\<rparr>
              | Inr content \<Rightarrow> r\<lparr>final_response := Some content\<rparr>))"

text \<open>
  The calculator notebook (calc\_skill.ipynb): the tool is looked up by the lower-cased
  name of the call in a dictionary literal of three entries. \<open>lower\<close> is \<open>str.lower()\<close>
  on ASCII letters; strings are byte strings here, and no other character lower-cases to a
  letter of the three names.
\<close>

datatype calc_tool = Add | Multiply | Exponentiate

definition calc_table :: "string \<Rightarrow> calc_tool option" where
  "calc_table = [''add'' \<mapsto> Add, ''multiply'' \<mapsto> Multiply, ''exponentiate'' \<mapsto> Exponentiate]"

definition lower_char :: "char \<Rightarrow> char" where
  "lower_char c =
     (let n = (of_char c :: nat) in if 65 \<le> n \<and> n \<le> 90 then char_of (n + 32) else c)"

definition lower :: "string \<Rightarrow> string" where
  "lower s = map lower_char s"

definition resolve :: "string \<Rightarrow> exn + calc_tool" where
  "resolve name = (case calc_table (lower name) of None \<Rightarrow> Inl KeyError | Some t \<Rightarrow> Inr t)"

fun calc_loop ::
  "(calc_tool \<Rightarrow> tool_call \<Rightarrow> exn + message) \<Rightarrow> tool_call list \<Rightarrow>
   (calc_tool \<times> tool_call) run \<Rightarrow> (calc_tool \<times> tool_call) run" where
  "calc_loop invoke [] r = r"
| "calc_loop invoke (tc # rest) r =
     (case resolve (call_name tc) of
        Inl e \<Rightarrow> r\<lparr>raised := Some e\<rparr>
      | Inr selected_tool \<Rightarrow>
          (case invoke selected_tool tc of
             Inl e \<Rightarrow> r\<lparr>invoked := invoked r @ [(selected_tool, tc)], raised := Some e\<rparr>
           | Inr tool_msg \<Rightarrow>
               calc_loop invoke rest
                 (r\<lparr>messages := messages r @ [tool_msg],
                    invoked := invoked r @ [(selected_tool, tc)]\<rparr>)))"

section \<open>Example inputs\<close>

text \<open>
  A stub Embedder, of dimension 2: texts that start with \<open>S\<close> lie on one axis, all other
  texts on the other. The world \<open>example_world\<close> is what the notebook's cells build with it
  (lemma \<open>build_example_world\<close> below).
\<close>

definition example_embedder :: "string \<Rightarrow> vec" where
  "example_embedder s = (case s of [] \<Rightarrow> [1, 0] | c # cs \<Rightarrow> if c = CHR ''S'' then [0, 1] else [1, 0])"

definition example_world :: sem_world where
  "example_world =
     \<lparr>heap = [[[1, 0], [1, 0], [0, 1]], [[1, 0], [1, 0], [0, 1]]],
      embed_log = map snd tool_descriptions,
      tool_embeddings = [[1, 0], [1, 0], [0, 1]],
      tool_names = [''query_wolfram_alpha'', ''trigger_zapier_webhook'', ''send_slack_message''],
      index = \<lparr>dim = 2, xb = [[1, 0], [1, 0], [0, 1]]\<rparr>,
      index_to_tool = notebook_index_to_tool\<rparr>"

definition example_query :: string where
  "example_query = ''Solve this equation: 2x + 3 = 7''"

text \<open>
  Two tool calls for the stock-price loop and a stub of \<open>get_stock_price.invoke\<close>: the
  quote source knows one ticker and answers any other with the tool's ValueError.
\<close>

definition example_calls :: "tool_call list" where
  "example_calls =
     [\<lparr>call_name = ''get_stock_price'', call_args = [(''ticker'', JStr ''APPLE'')],
       call_id = ''call_1''\<rparr>,
      \<lparr>call_name = ''get_stock_price'', call_args = [(''ticker'', JStr ''AAPL'')],
       call_id = ''call_2''\<rparr>]"

definition example_get_stock_price :: "tool_call \<Rightarrow> exn + message" where
  "example_get_stock_price tc =
     (if call_args tc = [(''ticker'', JStr ''AAPL'')] then Inr (ToolMessage ''189.5'' (call_id tc))
      else Inl (ValueError ''Failed to fetch stock price''))"

text \<open>
  The three tools with the first lines of their docstrings, and two group dictionaries:
  \<open>example_groups\<close> is the notebook's \<open>tool_groups\<close> once every tool is assigned;
  in \<open>sparse_groups\<close> the group Computation has no tool. \<open>query_wolfram_alpha\<close> has
  the docstring of the generative-selection notebook: the hierarchical notebook gives it
  none, and the building loop would stop at it with an AttributeError.
\<close>

definition query_wolfram_alpha :: tool where
  "query_wolfram_alpha =
     \<lparr>func_name = ''query_wolfram_alpha'',
      func_doc = Some ('' Query Wolfram Alpha to compute mathematical expressions. ''
                       @ [CHR 0x0A] @ ''    Args:'')\<rparr>"

definition trigger_zapier_webhook :: tool where
  "trigger_zapier_webhook =
     \<lparr>func_name = ''trigger_zapier_webhook'',
      func_doc = Some ([CHR 0x0A] @ ''    Trigger a Zapier webhook to execute a predefined Zap.''
                       @ [CHR 0x0A] @ '' '' @ [CHR 0x0A] @ ''    Args:'' @ [CHR 0x0A])\<rparr>"

definition send_slack_message :: tool where
  "send_slack_message =
     \<lparr>func_name = ''send_slack_message'',
      func_doc = Some ([CHR 0x0A] @ ''    Send a message to a specified Slack channel.''
                       @ [CHR 0x0A] @ '' '' @ [CHR 0x0A] @ ''    Args:'' @ [CHR 0x0A])\<rparr>"

definition example_groups :: "(string \<times> group_info) list" where
  "example_groups =
     [(''Computation'',
        \<lparr>description = ''Tools related to mathematical computations and data analysis.'',
         tools = [query_wolfram_alpha]\<rparr>),
      (''Automation'',
        \<lparr>description = ''Tools that automate workflows and integrate different services.'',
         tools = [trigger_zapier_webhook]\<rparr>),
      (''Communication'',
        \<lparr>description = ''Tools that facilitate communication and messaging.'',
         tools = [send_slack_message]\<rparr>)]"

definition sparse_groups :: "(string \<times> group_info) list" where
  "sparse_groups =
     [(''Computation'',
        \<lparr>description = ''Tools related to mathematical computations and data analysis.'',
         tools = []\<rparr>),
      (''Automation'',
        \<lparr>description = ''Tools that automate workflows and integrate different services.'',
         tools = [trigger_zapier_webhook]\<rparr>),
      (''Communication'',
        \<lparr>description = ''Tools that facilitate communication and messaging.'',
         tools = [send_slack_message]\<rparr>)]"

text \<open>
  The worlds that \<open>build_hierarchy\<close> makes of them with the stub Embedder (lemmas
  \<open>build_example_hierarchy\<close> and \<open>build_sparse_hierarchy\<close> below).
\<close>

definition example_hier_world :: hier_world where
  "example_hier_world =
     \<lparr>h_heap = [[[1, 0], [1, 0], [1, 0]], [[1, 0]], [[1, 0]], [[0, 1]]],
      h_embed_log =
        map (\<lambda>(group_name, info). description info) example_groups @
        [''Query Wolfram Alpha to compute mathematical expressions. '',
         ''Trigger a Zapier webhook to execute a predefined Zap.'',
         ''Send a message to a specified Slack channel.''],
      tool_groups = example_groups,
      group_names = [''Computation'', ''Automation'', ''Communication''],
      group_embeddings = [[1, 0], [1, 0], [1, 0]],
      group_embeddings_np = 0,
      group_index = \<lparr>dim = 2, xb = [[1, 0], [1, 0], [1, 0]]\<rparr>,
      tool_indices =
        [''Computation'' \<mapsto>
           \<lparr>tindex = \<lparr>dim = 2, xb = [[1, 0]]\<rparr>, functions = [query_wolfram_alpha],
            embeddings = 1\<rparr>,
         ''Automation'' \<mapsto>
           \<lparr>tindex = \<lparr>dim = 2, xb = [[1, 0]]\<rparr>, functions = [trigger_zapier_webhook],
            embeddings = 2\<rparr>,
         ''Communication'' \<mapsto>
           \<lparr>tindex = \<lparr>dim = 2, xb = [[0, 1]]\<rparr>, functions = [send_slack_message],
            embeddings = 3\<rparr>]\<rparr>"

definition sparse_hier_world :: hier_world where
  "sparse_hier_world =
     \<lparr>h_heap = [[[1, 0], [1, 0], [1, 0]], [[1, 0]], [[0, 1]]],
      h_embed_log =
        map (\<lambda>(group_name, info). description info) sparse_groups @
        [''Trigger a Zapier webhook to execute a predefined Zap.'',
         ''Send a message to a specified Slack channel.''],
      tool_groups = sparse_groups,
      group_names = [''Computation'', ''Automation'', ''Communication''],
      group_embeddings = [[1, 0], [1, 0], [1, 0]],
      group_embeddings_np = 0,
      group_index = \<lparr>dim = 2, xb = [[1, 0], [1, 0], [1, 0]]\<rparr>,
      tool_indices =
        [''Automation'' \<mapsto>
           \<lparr>tindex = \<lparr>dim = 2, xb = [[1, 0]]\<rparr>, functions = [trigger_zapier_webhook],
            embeddings = 1\<rparr>,
         ''Communication'' \<mapsto>
           \<lparr>tindex = \<lparr>dim = 2, xb = [[0, 1]]\<rparr>, functions = [send_slack_message],
            embeddings = 2\<rparr>]\<rparr>"

section \<open>The calculator's lookup table\<close>

lemma resolve_cases:
  "resolve name =
     (if lower name = ''add'' then Inr Add
      else if lower name = ''multiply'' then Inr Multiply
      else if lower name = ''exponentiate'' then Inr Exponentiate
      else Inl KeyError)"
  by (simp add: resolve_def calc_table_def)

text \<open>
  Claim C10. In the calculator notebook the tool for a call is found by lower-casing the
  call's name and looking it up in a table whose keys are exactly \<open>add\<close>, \<open>multiply\<close> and
  \<open>exponentiate\<close>. A name that lower-cases to one of them resolves to that tool, whatever
  its letter case. For any other name the lookup raises KeyError, which nothing catches:
  the loop ends there with no tool invoked for that call and no message appended.
\<close>

theorem calc_lookup_by_lowercased_name:
  "dom calc_table = {''add'', ''multiply'', ''exponentiate''} \<and>
   (lower name = ''add'' \<longrightarrow> resolve name = Inr Add) \<and>
   (lower name = ''multiply'' \<longrightarrow> resolve name = Inr Multiply) \<and>
   (lower name = ''exponentiate'' \<longrightarrow> resolve name = Inr Exponentiate) \<and>
   (lower name \<notin> {''add'', ''multiply'', ''exponentiate''} \<longrightarrow>
      resolve name = Inl KeyError \<and>
      calc_loop invoke (tc\<lparr>call_name := name\<rparr> # rest) r = r\<lparr>raised := Some KeyError\<rparr>)"
proof -
  have "dom calc_table = {''add'', ''multiply'', ''exponentiate''}"
    unfolding calc_table_def by auto
  then show ?thesis
    by (simp add: resolve_cases)
qed

theorem calc_lookup_by_lowercased_name_witness:
  "resolve ''Multiply'' = Inr Multiply \<and> resolve ''ADD'' = Inr Add \<and>
   resolve ''eXponentiate'' = Inr Exponentiate \<and>
   resolve ''subtract'' = Inl KeyError \<and>
   calc_loop (\<lambda>t c. Inr (ToolMessage ''0'' (call_name c)))
     [\<lparr>call_name = ''subtract'', call_args = [], call_id = ''call_1''\<rparr>,
      \<lparr>call_name = ''add'', call_args = [], call_id = ''call_2''\<rparr>]
     \<lparr>messages = [], invoked = [], raised = None, final_response = None\<rparr>
   = \<lparr>messages = [], invoked = [], raised = Some KeyError, final_response = None\<rparr>"
proof -
  have l: "lower ''Multiply'' = ''multiply''" "lower ''ADD'' = ''add''"
     "lower ''eXponentiate'' = ''exponentiate''" "lower ''subtract'' = ''subtract''"
    by code_simp+
  show ?thesis
    using calc_lookup_by_lowercased_name [of "''Multiply''"]
          calc_lookup_by_lowercased_name [of "''ADD''"]
          calc_lookup_by_lowercased_name [of "''eXponentiate''"]
          calc_lookup_by_lowercased_name [of "''subtract''"
             "\<lambda>t c. Inr (ToolMessage ''0'' (call_name c))"
             "\<lparr>call_name = ''subtract'', call_args = [], call_id = ''call_1''\<rparr>"
             "[\<lparr>call_name = ''add'', call_args = [], call_id = ''call_2''\<rparr>]"
             "\<lparr>messages = [], invoked = [], raised = None, final_response = None\<rparr>"]
    by (simp add: l)
qed

section \<open>The example world\<close>

lemma build_example_world:
  "build_index example_embedder tool_descriptions notebook_index_to_tool = Inr example_world"
  by (simp add: build_index_def tool_descriptions_def np_array_def alloc_def normalize_L2_def
      index_add_def IndexFlatL2_def Let_def example_embedder_def example_world_def
      normalize_row_def sq_norm_def)

lemma ranked_example:
  "ranked \<lparr>dim = 2, xb = [[1, 0], [1, 0], [0, 1]]\<rparr> [0, 1] = [(0, 2), (2, 0), (2, 1)]"
  by (simp add: ranked_def l2_sqr_def upt_rec)

lemma search_example:
  "index_search \<lparr>dim = 2, xb = [[1, 0], [1, 0], [0, 1]]\<rparr> [0, 1] 1 = Inr ([0], [2])"
  by (simp add: index_search_def NPY_MAX_BYTES_def ranked_example)

lemma select_example:
  "select_tool example_embedder example_world example_query 1 =
     (Inr [''send_slack_message''],
      example_world\<lparr>heap := heap example_world @ [[[0, 1]]],
                    embed_log := embed_log example_world @ [example_query]\<rparr>)"
  by (simp add: select_tool_def alloc_def normalize_L2_def example_world_def example_embedder_def
      example_query_def normalize_row_def sq_norm_def search_example List.map_filter_def
      notebook_index_to_tool_def nth_append)

section \<open>Argument binding\<close>

lemma dict_get_obj [simp]:
  "dict_get (JObj kvs) key dflt = Inr (case map_of kvs key of None \<Rightarrow> dflt | Some v \<Rightarrow> v)"
  by (simp add: dict_get_def)

text \<open>
  Claim C2, as stated, fails: a reply that is not JSON makes \<open>json.loads\<close> raise
  JSONDecodeError, \<open>determine_parameters\<close> lets it through, and the dispatch cell, which
  calls \<open>determine_parameters\<close> outside its \<open>try\<close>, ends with that exception.
\<close>

theorem malformed_response_counterexample:
  "determine_parameters (\<lambda>q t. Inl JSONDecodeError) example_query ''send_slack_message''
     = Inl JSONDecodeError \<and>
   fst (dispatch example_embedder (\<lambda>q t. Inl JSONDecodeError) (\<lambda>n. Some (\<lambda>args. Inr ''sent''))
          example_world example_query)
     = Inl JSONDecodeError"
  by (simp add: determine_parameters_def dispatch_def select_example)

text \<open>
  Claim C2, amended. When the model's reply cannot be parsed, \<open>determine_parameters\<close>
  raises the parser's exception unchanged, and the dispatch cell, once a tool is selected,
  ends with that exception whatever the tools are: no tool is invoked and nothing is
  composed.
\<close>

theorem unparsed_response_propagates:
  "(llm_json query tool_name = Inl e \<longrightarrow>
      determine_parameters llm_json query tool_name = Inl e) \<and>
   (select_tool embedder w query 1 = (Inr (tool_name # others), w1) \<and> tool_name \<noteq> [] \<and>
    llm_json query tool_name = Inl e \<longrightarrow>
      dispatch embedder llm_json globals w query = (Inl e, w1))"
  by (simp add: determine_parameters_def dispatch_def)

theorem unparsed_response_propagates_witness:
  "determine_parameters (\<lambda>q t. Inl JSONDecodeError) example_query ''send_slack_message''
     = Inl JSONDecodeError \<and>
   dispatch example_embedder (\<lambda>q t. Inl JSONDecodeError) (\<lambda>n. Some (\<lambda>args. Inr ''sent''))
       example_world example_query
     = (Inl JSONDecodeError,
        example_world\<lparr>heap := heap example_world @ [[[0, 1]]],
                      embed_log := embed_log example_world @ [example_query]\<rparr>)"
  using unparsed_response_propagates
          [of "\<lambda>q t. Inl JSONDecodeError" example_query "''send_slack_message''" JSONDecodeError
              example_embedder example_world "[]"
              "example_world\<lparr>heap := heap example_world @ [[[0, 1]]],
                      embed_log := embed_log example_world @ [example_query]\<rparr>"
              "\<lambda>n. Some (\<lambda>args. Inr ''sent'')"]
        select_example
  by simp

text \<open>
  Claim C9, as stated, fails: the reply \<open>{}\<close> for \<open>query_wolfram_alpha\<close> has no
  \<open>expression\<close>, and the function returns the mapping with \<open>expression\<close> bound to \<open>None\<close>.
\<close>

theorem missing_expression_counterexample:
  "determine_parameters (\<lambda>q t. Inr (JObj [])) example_query ''query_wolfram_alpha''
     = Inr [(''expression'', JNull)]"
  by (simp add: determine_parameters_def)

text \<open>
  Claim C9, amended. When the reply parses to a JSON object, \<open>determine_parameters\<close>
  returns a mapping whose keys are exactly the tool's parameters, so other keys of the reply
  are dropped; a parameter the reply has keeps the reply's value; a parameter it lacks gets
  its default: \<open>None\<close> for \<open>expression\<close>, \<open>"123456"\<close> for \<open>zap_id\<close>, \<open>{"data": query}\<close>
  for \<open>payload\<close>, \<open>"#general"\<close> for \<open>channel\<close>, the query for \<open>message\<close>. No missing key
  makes it fail.
\<close>

theorem determine_parameters_keys_and_defaults:
  "llm_json query tool_name = Inr (JObj kvs) \<Longrightarrow>
   \<exists>ps. determine_parameters llm_json query tool_name = Inr ps \<and>
        map fst ps = parameter_schema tool_name \<and>
        (\<forall>k v. k \<in> set (parameter_schema tool_name) \<and> map_of kvs k = Some v \<longrightarrow>
               map_of ps k = Some v) \<and>
        (\<forall>k. k \<in> set (parameter_schema tool_name) \<and> map_of kvs k = None \<longrightarrow>
             map_of ps k =
               Some (if k = ''expression'' then JNull
                     else if k = ''zap_id'' then JStr ''123456''
                     else if k = ''payload'' then JObj [(''data'', JStr query)]
                     else if k = ''channel'' then JStr ''#general''
                     else JStr query))"
proof -
  assume r: "llm_json query tool_name = Inr (JObj kvs)"
  consider (w) "tool_name = ''query_wolfram_alpha''" | (z) "tool_name = ''trigger_zapier_webhook''"
    | (s) "tool_name = ''send_slack_message''"
    | (o) "tool_name \<noteq> ''query_wolfram_alpha''" "tool_name \<noteq> ''trigger_zapier_webhook''"
          "tool_name \<noteq> ''send_slack_message''"
    by blast
  then show ?thesis
  proof cases
    case w
    with r show ?thesis
      by (auto simp add: determine_parameters_def parameter_schema_def split: option.split)
  next
    case z
    with r show ?thesis
      by (auto simp add: determine_parameters_def parameter_schema_def split: option.split)
  next
    case s
    with r show ?thesis
      by (auto simp add: determine_parameters_def parameter_schema_def split: option.split)
  next
    case o
    with r show ?thesis
      by (simp add: determine_parameters_def parameter_schema_def)
  qed
qed

theorem determine_parameters_keys_and_defaults_witness:
  "determine_parameters
      (\<lambda>q t. Inr (JObj [(''channel'', JStr ''#dev''), (''urgent'', JBool True)]))
      example_query ''send_slack_message''
     = Inr [(''channel'', JStr ''#dev''), (''message'', JStr example_query)]"
proof -
  from determine_parameters_keys_and_defaults
         [of "\<lambda>q t. Inr (JObj [(''channel'', JStr ''#dev''), (''urgent'', JBool True)])"
             example_query "''send_slack_message''"
             "[(''channel'', JStr ''#dev''), (''urgent'', JBool True)]"]
  obtain ps where ps:
    "determine_parameters
       (\<lambda>q t. Inr (JObj [(''channel'', JStr ''#dev''), (''urgent'', JBool True)]))
       example_query ''send_slack_message'' = Inr ps"
    "map fst ps = parameter_schema ''send_slack_message''"
    "\<forall>k v. k \<in> set (parameter_schema ''send_slack_message'') \<and>
           map_of [(''channel'', JStr ''#dev''), (''urgent'', JBool True)] k = Some v \<longrightarrow>
           map_of ps k = Some v"
    "\<forall>k. k \<in> set (parameter_schema ''send_slack_message'') \<and>
         map_of [(''channel'', JStr ''#dev''), (''urgent'', JBool True)] k = None \<longrightarrow>
         map_of ps k =
           Some (if k = ''expression'' then JNull
                 else if k = ''zap_id'' then JStr ''123456''
                 else if k = ''payload'' then JObj [(''data'', JStr example_query)]
                 else if k = ''channel'' then JStr ''#general''
                 else JStr example_query)"
    by blast
  from ps(2) obtain a b where ab: "ps = [(''channel'', a), (''message'', b)]"
    by (auto simp add: parameter_schema_def map_eq_Cons_conv)
  from ps(3) [rule_format, of "''channel''" "JStr ''#dev''"] ab have "a = JStr ''#dev''"
    by (simp add: parameter_schema_def)
  moreover from ps(4) [rule_format, of "''message''"] ab have "b = JStr example_query"
    by (simp add: parameter_schema_def)
  ultimately show ?thesis
    using ps(1) ab by simp
qed

section \<open>Failing invocations\<close>

lemma stock_loop_until_failure:
  "\<forall>t \<in> set pre. \<exists>m. f t = Inr m \<Longrightarrow> f tc = Inl e \<Longrightarrow>
   stock_loop f (pre @ tc # post) r =
     r\<lparr>messages := messages r @ map (\<lambda>t. projr (f t)) pre,
       invoked := invoked r @ pre @ [tc], raised := Some e\<rparr>"
proof (induction pre arbitrary: r)
  case Nil
  then show ?case by simp
next
  case (Cons a pre)
  then obtain m where "f a = Inr m" by auto
  with Cons show ?case by simp
qed

lemma stock_loop_all_succeed:
  "\<forall>t \<in> set tcs. \<exists>m. f t = Inr m \<Longrightarrow>
   stock_loop f tcs r =
     r\<lparr>messages := messages r @ map (\<lambda>t. projr (f t)) tcs, invoked := invoked r @ tcs\<rparr>"
proof (induction tcs arbitrary: r)
  case Nil
  then show ?case by simp
next
  case (Cons a tcs)
  then obtain m where "f a = Inr m" by auto
  with Cons show ?case by simp
qed

text \<open>
  Claim C8, as stated, fails: in the stock-price loop the first of two tool calls fails
  with the tool's ValueError; the second call is never invoked and no final response is
  composed.
\<close>

theorem failed_invocation_counterexample:
  "stock_cell (\<lambda>ms. Inr ''done'') example_get_stock_price
      [HumanMessage ''What is the stock price of Apple?''] example_calls
   = \<lparr>messages = [HumanMessage ''What is the stock price of Apple?''],
      invoked = [hd example_calls],
      raised = Some (ValueError ''Failed to fetch stock price''), final_response = None\<rparr>"
  by (simp add: stock_cell_def example_calls_def example_get_stock_price_def)

text \<open>
  Claim C8, amended. In the tool-call loop an invocation's exception is not caught: the
  loop ends at the first failing call, the calls after it are not invoked and the final
  response is not composed; when every call succeeds the final response is composed from
  the messages with every tool message appended in order. In the semantic notebook's
  dispatch cell, which invokes the top-ranked tool only, a ValueError of the invocation is
  caught and reported and the cell does not fail; any other exception leaves the cell.
\<close>

theorem invocation_failure_handling:
  "((\<forall>t \<in> set pre. \<exists>m. get_stock_price t = Inr m) \<and> get_stock_price tc = Inl e \<longrightarrow>
      stock_cell llm_with_tools get_stock_price msgs (pre @ tc # post) =
        \<lparr>messages = msgs @ map (\<lambda>t. projr (get_stock_price t)) pre, invoked = pre @ [tc],
         raised = Some e, final_response = None\<rparr>) \<and>
   ((\<forall>t \<in> set pre. \<exists>m. get_stock_price t = Inr m) \<and>
    llm_with_tools (msgs @ map (\<lambda>t. projr (get_stock_price t)) pre) = Inr content \<longrightarrow>
      stock_cell llm_with_tools get_stock_price msgs pre =
        \<lparr>messages = msgs @ map (\<lambda>t. projr (get_stock_price t)) pre, invoked = pre,
         raised = None, final_response = Some content\<rparr>) \<and>
   (select_tool embedder w query 1 = (Inr (tool_name # others), w1) \<and> tool_name \<noteq> [] \<and>
    determine_parameters llm_json query tool_name = Inr args \<and>
    globals tool_name = Some invoke \<and> invoke args = Inl e' \<longrightarrow>
      dispatch embedder llm_json globals w query =
        (if is_ValueError e' then Inr (Error_Invoking tool_name e') else Inl e', w1))"
  by (simp add: stock_cell_def stock_loop_until_failure stock_loop_all_succeed dispatch_def)

theorem invocation_failure_handling_witness:
  "stock_cell (\<lambda>ms. Inr ''done'') example_get_stock_price []
      ([example_calls ! 1] @ example_calls ! 0 # [example_calls ! 1])
     = \<lparr>messages = [ToolMessage ''189.5'' ''call_2''],
        invoked = [example_calls ! 1, example_calls ! 0],
        raised = Some (ValueError ''Failed to fetch stock price''), final_response = None\<rparr> \<and>
   stock_cell (\<lambda>ms. Inr ''done'') example_get_stock_price [] [example_calls ! 1]
     = \<lparr>messages = [ToolMessage ''189.5'' ''call_2''], invoked = [example_calls ! 1],
        raised = None, final_response = Some ''done''\<rparr> \<and>
   dispatch example_embedder (\<lambda>q t. Inr (JObj []))
       (\<lambda>n. Some (\<lambda>args. Inl (ValueError ''Slack API Error: channel_not_found'')))
       example_world example_query
     = (Inr (Error_Invoking ''send_slack_message''
               (ValueError ''Slack API Error: channel_not_found'')),
        example_world\<lparr>heap := heap example_world @ [[[0, 1]]],
                      embed_log := embed_log example_world @ [example_query]\<rparr>)"
proof -
  have ok: "example_get_stock_price (example_calls ! 1) = Inr (ToolMessage ''189.5'' ''call_2'')"
    by (simp add: example_get_stock_price_def example_calls_def)
  have bad: "example_get_stock_price (example_calls ! 0)
               = Inl (ValueError ''Failed to fetch stock price'')"
    by (simp add: example_get_stock_price_def example_calls_def)
  have args: "determine_parameters (\<lambda>q t. Inr (JObj [])) example_query ''send_slack_message''
                = Inr [(''channel'', JStr ''#general''), (''message'', JStr example_query)]"
    by (simp add: determine_parameters_def)
  note inst = invocation_failure_handling
      [of "[example_calls ! 1]" example_get_stock_price "example_calls ! 0"
          "ValueError ''Failed to fetch stock price''" "\<lambda>ms. Inr ''done''" "[]"
          "[example_calls ! 1]" "''done''"
          example_embedder example_world example_query "''send_slack_message''" "[]"
          "example_world\<lparr>heap := heap example_world @ [[[0, 1]]],
                      embed_log := embed_log example_world @ [example_query]\<rparr>"
          "\<lambda>q t. Inr (JObj [])"
          "[(''channel'', JStr ''#general''), (''message'', JStr example_query)]"
          "\<lambda>n. Some (\<lambda>args. Inl (ValueError ''Slack API Error: channel_not_found''))"
          "\<lambda>args. Inl (ValueError ''Slack API Error: channel_not_found'')"
          "ValueError ''Slack API Error: channel_not_found''"]
  show ?thesis
    using inst ok bad args select_example by simp
qed

section \<open>What a selection does to the world, and what it returns\<close>

lemma length_normalize_row [simp]: "length (normalize_row v) = length v"
  by (simp add: normalize_row_def)

lemma normalize_fresh [simp]:
  "normalize_L2 (length h) (h @ [a]) = h @ [map normalize_row a]"
  by (simp add: normalize_L2_def)

lemma select_tool_world:
  "snd (select_tool embedder w query top_k) =
     w\<lparr>heap := heap w @ [[normalize_row (embedder query)]], embed_log := embed_log w @ [query]\<rparr>"
  by (simp add: select_tool_def alloc_def Let_def split: sum.split prod.split)

lemma select_group_world:
  "snd (select_group embedder w query top_k) =
     w\<lparr>h_heap := h_heap w @ [[normalize_row (embedder query)]],
       h_embed_log := h_embed_log w @ [query]\<rparr>"
  by (simp add: select_group_def alloc_def Let_def split: sum.split prod.split)

lemma hier_select_tool_world:
  "snd (hier_select_tool embedder w query group_name top_k) =
     (if tool_indices w group_name = None then w
      else w\<lparr>h_heap := h_heap w @ [[normalize_row (embedder query)]],
             h_embed_log := h_embed_log w @ [query]\<rparr>)"
  by (simp add: hier_select_tool_def alloc_def Let_def split: sum.split prod.split option.split)

lemma select_tool_result:
  "fst (select_tool embedder w query top_k) =
     (case index_search (index w) (normalize_row (embedder query)) top_k of
        Inl e \<Rightarrow> Inl e
      | Inr (D, I) \<Rightarrow> Inr (List.map_filter (index_to_tool w) I))"
  by (simp add: select_tool_def alloc_def Let_def split: sum.split prod.split)

lemma select_group_result:
  "fst (select_group embedder w query top_k) =
     (case index_search (group_index w) (normalize_row (embedder query)) top_k of
        Inl e \<Rightarrow> Inl e
      | Inr (D, I) \<Rightarrow> comprehend (py_index (group_names w)) I)"
  by (simp add: select_group_def alloc_def Let_def split: sum.split prod.split)

lemma hier_select_tool_result:
  "fst (hier_select_tool embedder w query group_name top_k) =
     (case tool_indices w group_name of
        None \<Rightarrow> Inl KeyError
      | Some info \<Rightarrow>
          (case index_search (tindex info) (normalize_row (embedder query)) top_k of
             Inl e \<Rightarrow> Inl e
           | Inr (D, I) \<Rightarrow>
               comprehend (py_index (functions info))
                 (filter (\<lambda>idx. idx < int (length (functions info))) I)))"
  by (simp add: hier_select_tool_def alloc_def Let_def split: sum.split prod.split option.split)

lemma search_rejects_nonpositive: "top_k \<le> 0 \<Longrightarrow> index_search ix q top_k = Inl AssertionError"
  by (simp add: index_search_def)

text \<open>
  Claim C3, as stated, fails: with \<open>top_k = 0\<close> the query has been sent to the Embedder
  when \<open>select_tool\<close> fails, and the failure is the index library's assertion.
\<close>

theorem top_k_zero_counterexample:
  "fst (select_tool example_embedder example_world example_query 0) = Inl AssertionError \<and>
   embed_log (snd (select_tool example_embedder example_world example_query 0))
     = embed_log example_world @ [example_query]"
  by (simp add: select_tool_world select_tool_result index_search_def NPY_MAX_BYTES_def)

text \<open>
  Claim C3, amended. \<open>select_tool\<close> and \<open>select_group\<close> do not check \<open>top_k\<close>: for
  every \<open>top_k\<close> the query is first sent to the Embedder, once; for \<open>top_k \<le> 0\<close> the
  call then fails in the index search with the library's AssertionError; and for no
  \<open>top_k\<close> does \<open>select_tool\<close> raise an error of its own: whenever it fails, the failure
  is the one of the index search on that \<open>top_k\<close>.
\<close>

theorem top_k_is_not_checked:
  "embed_log (snd (select_tool embedder w query top_k)) = embed_log w @ [query] \<and>
   (top_k \<le> 0 \<longrightarrow> fst (select_tool embedder w query top_k) = Inl AssertionError) \<and>
   (\<forall>e. fst (select_tool embedder w query top_k) = Inl e \<longrightarrow>
        index_search (index w) (normalize_row (embedder query)) top_k = Inl e) \<and>
   h_embed_log (snd (select_group embedder hw query top_k)) = h_embed_log hw @ [query] \<and>
   (top_k \<le> 0 \<longrightarrow> fst (select_group embedder hw query top_k) = Inl AssertionError)"
proof (intro conjI allI impI)
  show "embed_log (snd (select_tool embedder w query top_k)) = embed_log w @ [query]"
    by (simp add: select_tool_world)
  show "h_embed_log (snd (select_group embedder hw query top_k)) = h_embed_log hw @ [query]"
    by (simp add: select_group_world)
next
  assume "top_k \<le> 0"
  then show "fst (select_tool embedder w query top_k) = Inl AssertionError"
    by (simp add: select_tool_result search_rejects_nonpositive)
next
  assume "top_k \<le> 0"
  then show "fst (select_group embedder hw query top_k) = Inl AssertionError"
    by (simp add: select_group_result search_rejects_nonpositive)
next
  fix e
  assume "fst (select_tool embedder w query top_k) = Inl e"
  then show "index_search (index w) (normalize_row (embedder query)) top_k = Inl e"
    by (cases "index_search (index w) (normalize_row (embedder query)) top_k")
       (auto simp add: select_tool_result)
qed

theorem top_k_is_not_checked_witness:
  "embed_log (snd (select_tool example_embedder example_world example_query 0))
     = embed_log example_world @ [example_query] \<and>
   fst (select_tool example_embedder example_world example_query 0) = Inl AssertionError \<and>
   fst (select_group example_embedder example_hier_world example_query 0) = Inl AssertionError \<and>
   fst (select_tool example_embedder example_world example_query (2 ^ 63))
     = Inl (ValueError ''array is too big'') \<and>
   index_search (index example_world) (normalize_row (example_embedder example_query)) (2 ^ 63)
     = Inl (ValueError ''array is too big'')"
proof -
  have q: "normalize_row (example_embedder example_query) = [0, 1]"
    by (simp add: example_embedder_def example_query_def normalize_row_def sq_norm_def)
  have "index_search (index example_world) [0, 1] (2 ^ 63) = Inl (ValueError ''array is too big'')"
    by (simp add: index_search_def NPY_MAX_BYTES_def example_world_def)
  then have big: "fst (select_tool example_embedder example_world example_query (2 ^ 63))
               = Inl (ValueError ''array is too big'')"
    by (simp add: select_tool_result q)
  have zero: "(0::int) \<le> 0" by simp
  note at_zero = top_k_is_not_checked [of example_embedder example_world example_query 0
         example_hier_world]
  note at_big = top_k_is_not_checked [of example_embedder example_world example_query "2 ^ 63"
         example_hier_world]
  from at_zero zero have
    "embed_log (snd (select_tool example_embedder example_world example_query 0))
       = embed_log example_world @ [example_query]"
    "fst (select_tool example_embedder example_world example_query 0) = Inl AssertionError"
    "fst (select_group example_embedder example_hier_world example_query 0) = Inl AssertionError"
    by blast+
  moreover from at_big big have
    "index_search (index example_world) (normalize_row (example_embedder example_query)) (2 ^ 63)
       = Inl (ValueError ''array is too big'')"
    by blast
  ultimately show ?thesis
    using big by blast
qed

lemma hierarchical_selection_world:
  "\<exists>arrays texts. snd (hierarchical_selection embedder w query) =
     w\<lparr>h_heap := h_heap w @ arrays, h_embed_log := h_embed_log w @ texts\<rparr>"
proof -
  obtain res w1 where sg: "select_group embedder w query 1 = (res, w1)"
    by (cases "select_group embedder w query 1")
  then have w1: "w1 = w\<lparr>h_heap := h_heap w @ [[normalize_row (embedder query)]],
                          h_embed_log := h_embed_log w @ [query]\<rparr>"
    using select_group_world [of embedder w query 1] by simp
  show ?thesis
  proof (cases res)
    case (Inl e)
    with sg w1 show ?thesis
      by (simp add: hierarchical_selection_def) blast
  next
    case (Inr gs)
    show ?thesis
    proof (cases "gs = []")
      case True
      with sg w1 Inr show ?thesis
        by (simp add: hierarchical_selection_def) blast
    next
      case False
      with sg Inr have "snd (hierarchical_selection embedder w query) =
                          snd (hier_select_tool embedder w1 query (hd gs) 1)"
        by (simp add: hierarchical_selection_def)
      also have "\<dots> = w1 \<or> \<dots> = w1\<lparr>h_heap := h_heap w1 @ [[normalize_row (embedder query)]],
                                       h_embed_log := h_embed_log w1 @ [query]\<rparr>"
        by (simp add: hier_select_tool_world)
      finally show ?thesis
        using w1 by (elim disjE) (simp, blast)+
    qed
  qed
qed

text \<open>
  Claim C7. A selection leaves the registry and every index as they were: after
  \<open>select_tool\<close>, \<open>select_group\<close>, the hierarchical \<open>select_tool\<close> or the two-step
  selection, the names, the embeddings, the groups, the indexes with their stored vectors
  and every array that was allocated before the call are unchanged (a call allocates a new
  array for the query, and that is the only array it normalises).
\<close>

theorem selection_frame:
  "(let w' = snd (select_tool embedder w query top_k)
    in tool_names w' = tool_names w \<and> tool_embeddings w' = tool_embeddings w \<and>
       index w' = index w \<and> index_to_tool w' = index_to_tool w \<and>
       take (length (heap w)) (heap w') = heap w) \<and>
   (let hw' = snd (select_group embedder hw query top_k)
    in tool_groups hw' = tool_groups hw \<and> group_names hw' = group_names hw \<and>
       group_embeddings hw' = group_embeddings hw \<and>
       group_embeddings_np hw' = group_embeddings_np hw \<and>
       group_index hw' = group_index hw \<and> tool_indices hw' = tool_indices hw \<and>
       take (length (h_heap hw)) (h_heap hw') = h_heap hw) \<and>
   (let hw' = snd (hier_select_tool embedder hw query group_name top_k)
    in tool_groups hw' = tool_groups hw \<and> group_names hw' = group_names hw \<and>
       group_embeddings hw' = group_embeddings hw \<and>
       group_embeddings_np hw' = group_embeddings_np hw \<and>
       group_index hw' = group_index hw \<and> tool_indices hw' = tool_indices hw \<and>
       take (length (h_heap hw)) (h_heap hw') = h_heap hw) \<and>
   (let hw' = snd (hierarchical_selection embedder hw query)
    in tool_groups hw' = tool_groups hw \<and> group_names hw' = group_names hw \<and>
       group_embeddings hw' = group_embeddings hw \<and>
       group_embeddings_np hw' = group_embeddings_np hw \<and>
       group_index hw' = group_index hw \<and> tool_indices hw' = tool_indices hw \<and>
       take (length (h_heap hw)) (h_heap hw') = h_heap hw)"
proof -
  obtain arrays texts where
    "snd (hierarchical_selection embedder hw query) =
       hw\<lparr>h_heap := h_heap hw @ arrays, h_embed_log := h_embed_log hw @ texts\<rparr>"
    using hierarchical_selection_world by blast
  then show ?thesis
    by (simp add: select_tool_world select_group_world hier_select_tool_world Let_def)
qed

section \<open>The example hierarchies\<close>

lemma describe_examples:
  "describe_tool query_wolfram_alpha = Inr ''Query Wolfram Alpha to compute mathematical expressions. ''"
  "describe_tool trigger_zapier_webhook = Inr ''Trigger a Zapier webhook to execute a predefined Zap.''"
  "describe_tool send_slack_message = Inr ''Send a message to a specified Slack channel.''"
  by code_simp+

lemma normalize_axis [simp]: "normalize_row [1, 0] = [1, 0]" "normalize_row [0, 1] = [0, 1]"
  by (simp_all add: normalize_row_def sq_norm_def)

lemma build_example_hierarchy:
  "build_hierarchy example_embedder example_groups = Inr example_hier_world"
  by (simp add: build_hierarchy_def example_groups_def index_group_def describe_examples
      np_array_def alloc_def normalize_L2_def index_add_def IndexFlatL2_def Let_def
      example_embedder_def example_hier_world_def nth_append numeral_2_eq_2 numeral_3_eq_3)

lemma build_sparse_hierarchy:
  "build_hierarchy example_embedder sparse_groups = Inr sparse_hier_world"
  by (simp add: build_hierarchy_def sparse_groups_def index_group_def describe_examples
      np_array_def alloc_def normalize_L2_def index_add_def IndexFlatL2_def Let_def
      example_embedder_def sparse_hier_world_def nth_append numeral_2_eq_2 numeral_3_eq_3)

lemma normalize_example_query [simp]: "normalize_row (example_embedder example_query) = [0, 1]"
  by (simp add: example_embedder_def example_query_def)

lemma sparse_group:
  "select_group example_embedder sparse_hier_world example_query 1 =
   (Inr [''Computation''], sparse_hier_world\<lparr>h_heap := h_heap sparse_hier_world @ [[[0, 1]]],
       h_embed_log := h_embed_log sparse_hier_world @ [example_query]\<rparr>)"
  by (simp add: prod_eq_iff select_group_result select_group_world sparse_hier_world_def index_search_def NPY_MAX_BYTES_def ranked_def l2_sqr_def upt_rec py_index_def)

section \<open>Hierarchical selection stays inside the group\<close>

lemma py_index_in_set: "py_index xs i = Inr x \<Longrightarrow> x \<in> set xs"
  by (auto simp add: py_index_def Let_def split: if_splits)

lemma comprehend_py_index_subset:
  "comprehend (py_index xs) idxs = Inr ys \<Longrightarrow> set ys \<subseteq> set xs"
proof (induction idxs arbitrary: ys)
  case Nil
  then show ?case by simp
next
  case (Cons i idxs)
  then show ?case
    by (auto split: sum.splits dest: py_index_in_set)
qed

lemma index_group_entry:
  assumes "index_group embedder (g, gi) (h, lg, ti) = Inr (h', lg', ti')"
  shows "ti' = ti \<or> (\<exists>info. ti' = ti(g \<mapsto> info) \<and> functions info = tools gi)"
  using assms
  by (auto simp add: index_group_def Let_def split: sum.splits if_splits prod.splits)

lemma index_groups_entries:
  assumes "index_groups embedder gs st = Inr st'"
    and "\<forall>g info. snd (snd st) g = Some info \<longrightarrow> (\<exists>gi. (g, gi) \<in> S \<and> functions info = tools gi)"
    and "set gs \<subseteq> S"
  shows "\<forall>g info. snd (snd st') g = Some info \<longrightarrow> (\<exists>gi. (g, gi) \<in> S \<and> functions info = tools gi)"
  using assms
proof (induction gs arbitrary: st)
  case Nil
  then show ?case by simp
next
  case (Cons a gs)
  obtain g gi where a: "a = (g, gi)" by (cases a)
  obtain h lg ti where st: "st = (h, lg, ti)" by (cases st)
  from Cons.prems(1) obtain st1 where
    s1: "index_group embedder a st = Inr st1" and s2: "index_groups embedder gs st1 = Inr st'"
    by (auto split: sum.splits)
  obtain h1 lg1 ti1 where st1: "st1 = (h1, lg1, ti1)" by (cases st1)
  from index_group_entry [of embedder g gi h lg ti h1 lg1 ti1] s1 a st st1
  have "ti1 = ti \<or> (\<exists>info. ti1 = ti(g \<mapsto> info) \<and> functions info = tools gi)" by simp
  moreover have "(g, gi) \<in> S" using Cons.prems(3) a by simp
  ultimately have
    "\<forall>g info. snd (snd st1) g = Some info \<longrightarrow> (\<exists>gi. (g, gi) \<in> S \<and> functions info = tools gi)"
    using Cons.prems(2) st st1 by (auto split: if_splits)
  moreover have "set gs \<subseteq> S" using Cons.prems(3) by simp
  ultimately show ?case using Cons.IH [OF s2] by blast
qed

lemma build_hierarchy_entries:
  assumes "build_hierarchy embedder groups = Inr w" and "tool_indices w g = Some info"
  shows "\<exists>gi. (g, gi) \<in> set groups \<and> functions info = tools gi"
proof -
  from assms(1) obtain st h3 lg where
    "index_groups embedder groups st = Inr (h3, lg, tool_indices w)" and "snd (snd st) = Map.empty"
    by (auto simp add: build_hierarchy_def Let_def split: if_splits sum.splits prod.splits)
  from index_groups_entries [OF this(1), of "set groups"] this(2) assms(2)
  show ?thesis by simp
qed

text \<open>
  Claim C5. In a hierarchy built by \<open>build_hierarchy\<close>, and in any later world with the
  same \<open>tool_indices\<close>, every tool that \<open>select_tool(query, g, top_k)\<close> returns is a tool
  of a group named \<open>g\<close> of the dictionary (its keys are distinct, so of the group \<open>g\<close>);
  and every tool that the two-step selection returns is a tool of the group that
  \<open>select_group\<close> ranks first for the same query.
\<close>

theorem selected_tools_belong_to_group:
  assumes "build_hierarchy embedder groups = Inr w0" and "tool_indices w = tool_indices w0"
  shows "(fst (hier_select_tool embedder' w query g top_k) = Inr ts \<longrightarrow>
            (\<forall>t \<in> set ts. \<exists>info. (g, info) \<in> set groups \<and> t \<in> set (tools info))) \<and>
         (fst (hierarchical_selection embedder' w query) = Inr ts' \<longrightarrow>
            (\<forall>t \<in> set ts'. \<exists>gs info. fst (select_group embedder' w query 1) = Inr gs \<and> gs \<noteq> [] \<and>
                 (hd gs, info) \<in> set groups \<and> t \<in> set (tools info)))"
proof -
  have in_group: "\<exists>info. (g, info) \<in> set groups \<and> t \<in> set (tools info)"
    if "fst (hier_select_tool embedder' v query g top_k) = Inr ts" and "t \<in> set ts"
      and "tool_indices v = tool_indices w0"
    for v g top_k ts t
  proof -
    from that(1) obtain info where i: "tool_indices v g = Some info"
      by (auto simp add: hier_select_tool_result split: option.splits)
    with that(1) obtain D I where
      "comprehend (py_index (functions info))
         (filter (\<lambda>idx. idx < int (length (functions info))) I) = Inr ts"
      by (auto simp add: hier_select_tool_result split: sum.splits)
    then have "set ts \<subseteq> set (functions info)"
      by (rule comprehend_py_index_subset)
    moreover from build_hierarchy_entries [OF assms(1), of g info] i that(3)
    obtain gi where "(g, gi) \<in> set groups" "functions info = tools gi" by auto
    ultimately show ?thesis using that(2) by auto
  qed
  have first: "fst (hier_select_tool embedder' w query g top_k) = Inr ts \<longrightarrow>
            (\<forall>t \<in> set ts. \<exists>info. (g, info) \<in> set groups \<and> t \<in> set (tools info))"
    using in_group [of w g top_k ts] assms(2) by blast
  have second: "\<exists>gs info. fst (select_group embedder' w query 1) = Inr gs \<and> gs \<noteq> [] \<and>
                 (hd gs, info) \<in> set groups \<and> t \<in> set (tools info)"
    if r: "fst (hierarchical_selection embedder' w query) = Inr ts'" and t: "t \<in> set ts'" for t
  proof -
    obtain res w1 where sg: "select_group embedder' w query 1 = (res, w1)"
      by (cases "select_group embedder' w query 1")
    have w1: "tool_indices w1 = tool_indices w0"
      using select_group_world [of embedder' w query 1] sg assms(2) by simp
    from r sg obtain gs where gs: "res = Inr gs"
      by (cases res) (auto simp add: hierarchical_selection_def)
    from r sg gs t have ne: "gs \<noteq> []"
      by (auto simp add: hierarchical_selection_def split: if_splits)
    with r sg gs have "fst (hier_select_tool embedder' w1 query (hd gs) 1) = Inr ts'"
      by (simp add: hierarchical_selection_def)
    from in_group [OF this t w1] sg gs ne show ?thesis by auto
  qed
  from first second show ?thesis by blast
qed

theorem selected_tools_belong_to_group_witness:
  "fst (hier_select_tool example_embedder example_hier_world example_query ''Communication'' 1)
     = Inr [send_slack_message] \<and>
   (\<exists>info. (''Communication'', info) \<in> set example_groups \<and>
           send_slack_message \<in> set (tools info)) \<and>
   fst (hierarchical_selection example_embedder example_hier_world example_query)
     = Inr [query_wolfram_alpha] \<and>
   (\<exists>gs info. fst (select_group example_embedder example_hier_world example_query 1) = Inr gs \<and>
        gs \<noteq> [] \<and> (hd gs, info) \<in> set example_groups \<and> query_wolfram_alpha \<in> set (tools info))"
proof -
  have e1: "fst (hier_select_tool example_embedder example_hier_world example_query
                  ''Communication'' 1) = Inr [send_slack_message]"
    by (simp add: hier_select_tool_result example_hier_world_def index_search_def NPY_MAX_BYTES_def ranked_def
        l2_sqr_def py_index_def)
  have g: "select_group example_embedder example_hier_world example_query 1 =
             (Inr [''Computation''],
              example_hier_world\<lparr>h_heap := h_heap example_hier_world @ [[[0, 1]]],
                 h_embed_log := h_embed_log example_hier_world @ [example_query]\<rparr>)"
    by (simp add: prod_eq_iff select_group_result select_group_world example_hier_world_def
        index_search_def NPY_MAX_BYTES_def ranked_def l2_sqr_def upt_rec py_index_def)
  have e2: "fst (hierarchical_selection example_embedder example_hier_world example_query)
              = Inr [query_wolfram_alpha]"
    by (simp add: hierarchical_selection_def g hier_select_tool_result)
       (simp add: example_hier_world_def index_search_def NPY_MAX_BYTES_def ranked_def l2_sqr_def py_index_def)
  from selected_tools_belong_to_group [OF build_example_hierarchy refl,
         of example_embedder example_query "''Communication''" 1 "[send_slack_message]"
            "[query_wolfram_alpha]"] e1 e2
  show ?thesis by simp
qed

section \<open>Groups without tools\<close>

text \<open>
  A group all of whose entries have no tool gets no entry in \<open>tool_indices\<close>.
\<close>

lemma index_group_skips_empty:
  assumes "index_group embedder (g', gi) (h, lg, ti) = Inr (h', lg', ti')"
    and "g' = g \<longrightarrow> tools gi = []"
  shows "ti' g = ti g"
  using assms
  by (auto simp add: index_group_def Let_def split: sum.splits if_splits prod.splits)

lemma index_groups_skip_empty:
  assumes "index_groups embedder gs st = Inr st'"
    and "\<forall>gi. (g, gi) \<in> set gs \<longrightarrow> tools gi = []"
  shows "snd (snd st') g = snd (snd st) g"
  using assms
proof (induction gs arbitrary: st)
  case Nil
  then show ?case by simp
next
  case (Cons a gs)
  obtain g' gi where a: "a = (g', gi)" by (cases a)
  obtain h lg ti where st: "st = (h, lg, ti)" by (cases st)
  from Cons.prems(1) obtain st1 where
    s1: "index_group embedder a st = Inr st1" and s2: "index_groups embedder gs st1 = Inr st'"
    by (auto split: sum.splits)
  obtain h1 lg1 ti1 where st1: "st1 = (h1, lg1, ti1)" by (cases st1)
  have e: "g' = g \<longrightarrow> tools gi = []"
  proof
    assume "g' = g"
    then have "(g, gi) \<in> set (a # gs)" using a by simp
    with Cons.prems(2) show "tools gi = []" by blast
  qed
  from s1 a st st1 have "index_group embedder (g', gi) (h, lg, ti) = Inr (h1, lg1, ti1)"
    by simp
  from index_group_skips_empty [OF this e]
  have "ti1 g = ti g" .
  moreover have "\<forall>gi. (g, gi) \<in> set gs \<longrightarrow> tools gi = []"
  proof (intro allI impI)
    fix gi'
    assume "(g, gi') \<in> set gs"
    then have "(g, gi') \<in> set (a # gs)" by simp
    with Cons.prems(2) show "tools gi' = []" by blast
  qed
  from Cons.IH [OF s2 this] have "snd (snd st') g = snd (snd st1) g" .
  ultimately show ?case using st st1 by simp
qed

lemma empty_group_has_no_entry:
  assumes "build_hierarchy embedder groups = Inr w"
    and "\<forall>gi. (g, gi) \<in> set groups \<longrightarrow> tools gi = []"
  shows "tool_indices w g = None"
proof -
  from assms(1) obtain st h3 lg where
    "index_groups embedder groups st = Inr (h3, lg, tool_indices w)" and "snd (snd st) = Map.empty"
    by (auto simp add: build_hierarchy_def Let_def split: if_splits sum.splits prod.splits)
  from index_groups_skip_empty [OF this(1) assms(2)] this(2)
  show ?thesis by simp
qed

text \<open>
  Claim C6 at its failing input: in the hierarchy built from \<open>sparse_groups\<close> the group
  Computation has no tool, so the building loop gives it no entry in \<open>tool_indices\<close>;
  selecting within it raises KeyError instead of returning the empty list, and so does the
  two-step selection for a query whose top group it is.
\<close>

theorem empty_group_raises_key_error:
  "build_hierarchy example_embedder sparse_groups = Inr sparse_hier_world \<and>
   fst (hier_select_tool example_embedder sparse_hier_world example_query ''Computation'' 1)
     = Inl KeyError \<and>
   fst (hierarchical_selection example_embedder sparse_hier_world example_query) = Inl KeyError"
proof -
  have "fst (hier_select_tool example_embedder sparse_hier_world example_query ''Computation'' 1)
          = Inl KeyError"
    by (simp add: hier_select_tool_result sparse_hier_world_def)
  moreover have
    "fst (hierarchical_selection example_embedder sparse_hier_world example_query) = Inl KeyError"
    by (simp add: hierarchical_selection_def sparse_group hier_select_tool_result)
       (simp add: sparse_hier_world_def)
  ultimately show ?thesis
    using build_sparse_hierarchy by simp
qed

section \<open>More labels asked for than vectors stored\<close>

text \<open>
  The semantic notebook's \<open>select_tool\<close> drops the padding labels: when the keys of
  \<open>index_to_tool\<close> are the positions of the stored vectors, what it returns has as many
  names as there are vectors, or \<open>top_k\<close> if that is less.
\<close>

lemma length_ranked [simp]: "length (ranked ix q) = length (xb ix)"
  by (simp add: ranked_def)

lemma sorted_ranked: "sorted (map fst (ranked ix q))"
  by (simp add: ranked_def)

lemma labels_ranked: "set (map snd (ranked ix q)) = int ` {0..<length (xb ix)}"
  by (auto simp add: ranked_def image_iff)

lemma map_filter_defined:
  "\<forall>x \<in> set xs. f x \<noteq> None \<Longrightarrow> length (List.map_filter f xs) = length xs"
  by (induction xs) (auto simp add: List.map_filter_def)

lemma map_filter_padding: "f x = None \<Longrightarrow> List.map_filter f (replicate n x) = []"
  by (induction n) (simp_all add: List.map_filter_def)

lemma map_filter_append:
  "List.map_filter f (xs @ ys) = List.map_filter f xs @ List.map_filter f ys"
  by (simp add: List.map_filter_def)

lemma semantic_select_tool_count:
  assumes keys: "\<forall>i. index_to_tool w i \<noteq> None \<longleftrightarrow> 0 \<le> i \<and> i < int (length (xb (index w)))"
    and r: "fst (select_tool embedder w query top_k) = Inr ts"
  shows "length ts = min (nat top_k) (length (xb (index w)))"
proof -
  let ?top = "take (nat top_k) (ranked (index w) (normalize_row (embedder query)))"
  have "set (map snd ?top) \<subseteq> int ` {0..<length (xb (index w))}"
    using labels_ranked [of "index w" "normalize_row (embedder query)"]
    by (metis set_take_subset set_map image_mono take_map)
  then have "\<forall>x \<in> set (map snd ?top). index_to_tool w x \<noteq> None"
    using keys by auto
  then have "length (List.map_filter (index_to_tool w) (map snd ?top)) = length ?top"
    by (simp add: map_filter_defined)
  moreover have "index_to_tool w (- 1) = None"
    using keys [rule_format, of "- 1"] by simp
  moreover from r have
    "ts = List.map_filter (index_to_tool w)
            (map snd ?top @ replicate (nat top_k - length ?top) (- 1))"
    by (auto simp add: select_tool_result index_search_def Let_def split: if_splits)
  ultimately show ?thesis
    by (simp add: map_filter_append map_filter_padding)
qed

text \<open>
  Claim C4 at its failing input: each group of \<open>example_groups\<close> holds one tool and there
  are three groups. Asked for two tools of the group Automation, the hierarchical
  \<open>select_tool\<close> returns its only tool twice: the padding label \<open>-1\<close> passes the test
  \<open>idx < len(functions)\<close> and indexes the list from its end. Asked for five groups,
  \<open>select_group\<close>, which has no test, returns five names, the last one three times.
\<close>

theorem padding_labels_select_last_entry:
  "build_hierarchy example_embedder example_groups = Inr example_hier_world \<and>
   fst (hier_select_tool example_embedder example_hier_world example_query ''Automation'' 2)
     = Inr [trigger_zapier_webhook, trigger_zapier_webhook] \<and>
   fst (select_group example_embedder example_hier_world example_query 5)
     = Inr [''Computation'', ''Automation'', ''Communication'', ''Communication'',
            ''Communication'']"
proof -
  have "fst (hier_select_tool example_embedder example_hier_world example_query ''Automation'' 2)
          = Inr [trigger_zapier_webhook, trigger_zapier_webhook]"
    by (simp add: hier_select_tool_result example_hier_world_def index_search_def NPY_MAX_BYTES_def ranked_def
        l2_sqr_def py_index_def numeral_eq_Suc)
  moreover have "fst (select_group example_embedder example_hier_world example_query 5)
     = Inr [''Computation'', ''Automation'', ''Communication'', ''Communication'',
            ''Communication'']"
    by (simp add: select_group_result example_hier_world_def index_search_def NPY_MAX_BYTES_def ranked_def
        l2_sqr_def upt_rec py_index_def numeral_eq_Suc)
  ultimately show ?thesis
    using build_example_hierarchy by simp
qed

section \<open>Normalisation of the stored vectors\<close>

lemma sq_norm_scaled: "sq_norm (map (\<lambda>x. x / c) v) = sq_norm v / (c * c)"
  by (induction v) (simp_all add: sq_norm_def add_divide_distrib)

lemma normalize_row_unit_norm: "0 < sq_norm v \<Longrightarrow> l2_norm (normalize_row v) = 1"
  by (simp add: normalize_row_def l2_norm_def sq_norm_scaled)

lemma build_index_stores_raw:
  "build_index embedder descs i2t = Inr w \<Longrightarrow>
   xb (index w) = map (\<lambda>(tool_name, description). embedder description) descs"
  by (auto simp add: build_index_def np_array_def alloc_def normalize_L2_def index_add_def
      IndexFlatL2_def Let_def nth_append split: if_splits)

lemma sqrt_25: "sqrt 25 = 5"
  using real_sqrt_abs [of 5] by simp

lemma np_array_Inr: "np_array rows h = Inr (a, h') \<Longrightarrow> a = length h \<and> h' = h @ [rows]"
  by (auto simp add: np_array_def alloc_def split: if_splits)

lemma index_add_Inr: "index_add ix x = Inr ix' \<Longrightarrow> xb ix' = xb ix @ x"
  by (auto simp add: index_add_def split: if_splits)

lemma build_hierarchy_group_index:
  assumes "build_hierarchy embedder groups = Inr w"
  shows "xb (group_index w) =
     map (\<lambda>(group_name, info). normalize_row (embedder (description info))) groups"
proof -
  let ?embs = "map embedder (map (\<lambda>(group_name, info). description info) groups)"
  from assms obtain a h1 where
    n: "np_array ?embs [] = Inr (a, h1)" and
    i: "index_add (IndexFlatL2 (length (hd (normalize_L2 a h1 ! a)))) (normalize_L2 a h1 ! a)
          = Inr (group_index w)"
    by (auto simp add: build_hierarchy_def Let_def split: if_splits sum.splits prod.splits)
  from np_array_Inr [OF n] have "normalize_L2 a h1 ! a = map normalize_row ?embs"
    by (simp add: normalize_L2_def)
  with index_add_Inr [OF i] show ?thesis
    by (simp add: IndexFlatL2_def comp_def case_prod_unfold)
qed

text \<open>
  Claim C1 at its failing input: an Embedder that gives every text the vector \<open>(3, 4)\<close>,
  of norm 5. The semantic notebook normalises an array made for the call and adds a second,
  untouched array to the index: the stored vectors are the raw embeddings, of norm 5, while
  the query vector it searches with is normalised, \<open>(3/5, 4/5)\<close>. The hierarchical
  notebook normalises the array it adds: its stored vectors have norm 1.
\<close>

theorem flat_index_not_normalized:
  "map_sum id (\<lambda>w. (xb (index w), map l2_norm (xb (index w))))
      (build_index (\<lambda>s. [3, 4]) tool_descriptions notebook_index_to_tool)
     = Inr ([[3, 4], [3, 4], [3, 4]], [5, 5, 5]) \<and>
   map_sum id (\<lambda>w. last (heap (snd (select_tool (\<lambda>s. [3, 4]) w example_query 1))))
      (build_index (\<lambda>s. [3, 4]) tool_descriptions notebook_index_to_tool)
     = Inr [[3 / 5, 4 / 5]] \<and>
   map_sum id (\<lambda>w. (xb (group_index w), map l2_norm (xb (group_index w))))
      (build_hierarchy (\<lambda>s. [3, 4]) example_groups)
     = Inr ([[3 / 5, 4 / 5], [3 / 5, 4 / 5], [3 / 5, 4 / 5]], [1, 1, 1])"
proof -
  have n: "normalize_row [3, 4] = [3 / 5, 4 / 5]"
    by (simp add: normalize_row_def sq_norm_def sqrt_25)
  have a: "l2_norm [3, 4] = 5"
    by (simp add: l2_norm_def sq_norm_def sqrt_25)
  have b: "l2_norm [3 / 5, 4 / 5] = 1"
    by (simp add: l2_norm_def sq_norm_def)
  obtain w where w: "build_index (\<lambda>s. [3, 4]) tool_descriptions notebook_index_to_tool = Inr w"
    by (simp add: build_index_def tool_descriptions_def np_array_def alloc_def normalize_L2_def
        index_add_def IndexFlatL2_def Let_def)
  from build_index_stores_raw [OF w] have flat: "xb (index w) = [[3, 4], [3, 4], [3, 4]]"
    by (simp add: tool_descriptions_def)
  have q: "last (heap (snd (select_tool (\<lambda>s. [3, 4]) w example_query 1))) = [[3 / 5, 4 / 5]]"
    by (simp add: select_tool_world n)
  have hier: "map_sum id (\<lambda>w. xb (group_index w)) (build_hierarchy (\<lambda>s. [3, 4]) example_groups)
     = Inr [[3 / 5, 4 / 5], [3 / 5, 4 / 5], [3 / 5, 4 / 5]]"
    by (simp add: build_hierarchy_def example_groups_def index_group_def describe_examples
        np_array_def alloc_def normalize_L2_def index_add_def IndexFlatL2_def Let_def n nth_append)
  from w flat q hier show ?thesis
    by (auto simp add: a b map_sum_def split: sum.splits)
qed

end
